theory Spec2Isabelle
  imports Complex_Main
begin

section \<open>The TestPoint helper class \<open>phb_test\<close> (phb-test.h)\<close>

text \<open>
  The class holds five arrays of \<open>DEF_TEST_POINTS\<close> pointers to component objects that
  the surrounding ESPHome configuration declares (\<open>outputTP0\<close> ... \<open>inputTP7\<close>), and a
  flag \<open>_Initialized\<close>.  \<open>DEF_TEST_POINTS\<close> is the build-time macro
  \<open>__CONTROL_POINTS__\<close>; every function below takes it as the parameter \<open>N\<close>.

  A pointer is \<open>None\<close> (\<open>nullptr\<close>) or \<open>Some k\<close>, the address of the object with
  number \<open>k\<close> of the pointed-to kind (\<open>Some 3\<close> in \<open>_OutputArray\<close> is \<open>&id(outputTP3)\<close>).
  An array is the function from its index to the pointer stored there; the code reads
  and writes an array only at indices \<open>0 \<le> i < N\<close>.

  A C++ \<open>float\<close> (binary32) value is the real number it stands for; the class stores
  such values, passes them on, and divides them by \<open>100.0f\<close>.  That division is the
  binary32 one, which rounds its result (\<open>80.0f / 100.0f\<close> is \<open>13421773 / 2^24\<close>, not 4/5).
  It is not the division of the reals, so the two functions that divide, \<open>mTPEnable\<close> and
  \<open>mSetDutyCycle\<close>, take the division of the target as their parameter \<open>fdiv\<close>, and
  nothing is assumed of it.  The log macros \<open>ESP_LOGE\<close> and \<open>ESP_LOGI\<close> write to the
  diagnostic channel only and are left out.
\<close>

type_synonym float = real

type_synonym ptr = "nat option"

record phb_test =
  InputArray     :: "nat \<Rightarrow> ptr"
  OutputArray    :: "nat \<Rightarrow> ptr"
  DutyCycleArray :: "nat \<Rightarrow> ptr"
  FrequencyArray :: "nat \<Rightarrow> ptr"
  SwitchArray    :: "nat \<Rightarrow> ptr"
  Initialized    :: bool

text \<open>
  The calls the class makes on an \<open>LEDCOutput\<close>.  The output driver is ESPHome's; what
  this code does to it is the sequence of calls it receives.
\<close>

datatype LEDC_call =
  turn_on
| turn_off
| update_frequency float
| set_level float

text \<open>
  The whole system: the singleton \<open>instance\<close> of \<open>mGet\<close>, and the component objects.
  \<open>outputTP k\<close> is the sequence of calls \<open>outputTPk\<close> has received so far (oldest
  first); the other four fields are the \<open>state\<close> members of \<open>switchTPk\<close>,
  \<open>numTPkDutyCycle\<close>, \<open>numTPkFrequency\<close> and \<open>inputTPk\<close>.
\<close>

record system =
  inst           :: phb_test
  outputTP       :: "nat \<Rightarrow> LEDC_call list"
  switchTP       :: "nat \<Rightarrow> bool"
  numTPDutyCycle :: "nat \<Rightarrow> float"
  numTPFrequency :: "nat \<Rightarrow> float"
  inputTP        :: "nat \<Rightarrow> bool"

text \<open>Reading through a null pointer is undefined behaviour: the model's only error.\<close>

datatype error = NullPointer

definition deref :: "ptr \<Rightarrow> (nat \<Rightarrow> error + 'a) \<Rightarrow> error + 'a" where
  "deref p k = (case p of None \<Rightarrow> Inl NullPointer | Some a \<Rightarrow> k a)"

text \<open>A method call on the output object \<open>o\<close>.\<close>

definition call :: "nat \<Rightarrow> LEDC_call \<Rightarrow> system \<Rightarrow> system" where
  "call out c s = s\<lparr>outputTP := (outputTP s)(out := outputTP s out @ [c])\<rparr>"

text \<open>
  \<open>TemplateNumber::publish_state\<close> (ESPHome) stores the value in the number's \<open>state\<close>
  member and notifies its listeners; the listeners are outside this class.
\<close>

definition publish_state :: "nat \<Rightarrow> float \<Rightarrow> system \<Rightarrow> system" where
  "publish_state f v s = s\<lparr>numTPFrequency := (numTPFrequency s)(f := v)\<rparr>"

subsection \<open>Construction and \<open>setup\<close>\<close>

text \<open>The member initialisers: every array all \<open>nullptr\<close>, \<open>_Initialized = false\<close>.\<close>

definition phb_test_new :: phb_test where
  "phb_test_new =
     \<lparr>InputArray = (\<lambda>_. None), OutputArray = (\<lambda>_. None), DutyCycleArray = (\<lambda>_. None),
      FrequencyArray = (\<lambda>_. None), SwitchArray = (\<lambda>_. None), Initialized = False\<rparr>"

text \<open>The five assignments of one \<open>case k:\<close> of the switch in \<open>setup\<close>, at array index \<open>i\<close>.\<close>

definition bind_case :: "nat \<Rightarrow> nat \<Rightarrow> phb_test \<Rightarrow> phb_test" where
  "bind_case i k r =
     r\<lparr>OutputArray    := (OutputArray r)(i \<mapsto> k),
       SwitchArray    := (SwitchArray r)(i \<mapsto> k),
       DutyCycleArray := (DutyCycleArray r)(i \<mapsto> k),
       FrequencyArray := (FrequencyArray r)(i \<mapsto> k),
       InputArray     := (InputArray r)(i \<mapsto> k)\<rparr>"

text \<open>The \<open>switch(i)\<close> of the loop body: cases 0 to 7 bind, case 8 logs, default does nothing.\<close>

definition setup_switch :: "int \<Rightarrow> phb_test \<Rightarrow> phb_test" where
  "setup_switch i r =
     (if i = 0 then bind_case (nat i) 0 r
      else if i = 1 then bind_case (nat i) 1 r
      else if i = 2 then bind_case (nat i) 2 r
      else if i = 3 then bind_case (nat i) 3 r
      else if i = 4 then bind_case (nat i) 4 r
      else if i = 5 then bind_case (nat i) 5 r
      else if i = 6 then bind_case (nat i) 6 r
      else if i = 7 then bind_case (nat i) 7 r
      else if i = 8 then r
      else r)"

text \<open>\<open>for (int i = ...; i < DEF_TEST_POINTS; i++)\<close>, from the current value of \<open>i\<close>.\<close>

function setup_loop :: "int \<Rightarrow> int \<Rightarrow> phb_test \<Rightarrow> phb_test" where
  "setup_loop N i r = (if i < N then setup_loop N (i + 1) (setup_switch i r) else r)"
  by pat_completeness auto
termination
  by (relation "measure (\<lambda>(N, i, r). nat (N - i))") auto

declare setup_loop.simps [simp del]

text \<open>The member function \<open>setup\<close> of the class.\<close>

definition phb_test_setup :: "int \<Rightarrow> phb_test \<Rightarrow> phb_test" where
  "phb_test_setup N r = (if Initialized r then r else (setup_loop N 0 r)\<lparr>Initialized := True\<rparr>)"

text \<open>
  \<open>mGet\<close>: the function-local static \<open>instance\<close> is the field \<open>inst\<close>; the returned
  reference is to that field of the resulting system.
\<close>

definition mGet :: "int \<Rightarrow> system \<Rightarrow> system" where
  "mGet N s =
     (if \<not> Initialized (inst s) then s\<lparr>inst := (phb_test_setup N (inst s))\<lparr>Initialized := True\<rparr>\<rparr>
      else s)"

text \<open>The system at program start: the static instance as constructed, any components.\<close>

definition boot :: "(nat \<Rightarrow> bool) \<Rightarrow> (nat \<Rightarrow> float) \<Rightarrow> (nat \<Rightarrow> float) \<Rightarrow> (nat \<Rightarrow> bool) \<Rightarrow> system" where
  "boot sw dc fr inp =
     \<lparr>inst = phb_test_new, outputTP = (\<lambda>_. []), switchTP = sw, numTPDutyCycle = dc,
      numTPFrequency = fr, inputTP = inp\<rparr>"

text \<open>A system at program start for the examples: every switch \<open>sw\<close>, duty cycle 50, 1000 Hz.\<close>

definition example_boot :: "bool \<Rightarrow> system" where
  "example_boot sw = boot (\<lambda>_. sw) (\<lambda>_. 50) (\<lambda>_. 1000) (\<lambda>_. False)"

text \<open>
  A second one, with the values of the specification's examples: duty cycle 80, 500 Hz,
  every switch on.
\<close>

definition example_boot_80 :: system where
  "example_boot_80 = boot (\<lambda>_. True) (\<lambda>_. 80) (\<lambda>_. 500) (\<lambda>_. False)"

text \<open>
  A division for the examples.  At the two operand pairs where the quotient has no
  binary32 representation it gives the binary32 quotient, which is the 24-bit significand
  nearest to the exact quotient: \<open>80.0f / 100.0f = 13421773 / 2^24\<close> and
  \<open>33.0f / 100.0f = 11072963 / 2^25\<close>.  Apart from these the examples divide only 25 and
  50 by 100, where the exact quotient (1/4, 1/2) is a binary32 value and so is the
  binary32 quotient.
\<close>

definition example_div :: "float \<Rightarrow> float \<Rightarrow> float" where
  "example_div x y =
     (if x = 80 \<and> y = 100 then 13421773 / 2 ^ 24
      else if x = 33 \<and> y = 100 then 11072963 / 2 ^ 25
      else x / y)"

subsection \<open>The accessors\<close>

definition mIsEnabled :: "int \<Rightarrow> int \<Rightarrow> system \<Rightarrow> error + bool" where
  "mIsEnabled N idx s =
     (if idx < 0 \<or> idx \<ge> N then Inr False
      else deref (SwitchArray (inst s) (nat idx)) (\<lambda>w. Inr (switchTP s w)))"

definition mTPEnable :: "(float \<Rightarrow> float \<Rightarrow> float) \<Rightarrow> int \<Rightarrow> int \<Rightarrow> system \<Rightarrow> error + system" where
  "mTPEnable fdiv N idx s =
     (if idx < 0 \<or> idx \<ge> N then Inr s
      else
        deref (OutputArray (inst s) (nat idx)) (\<lambda>out.
        let s1 = call out turn_on s in
        deref (FrequencyArray (inst s1) (nat idx)) (\<lambda>f.
        let s2 = call out (update_frequency (numTPFrequency s1 f)) s1 in
        deref (DutyCycleArray (inst s2) (nat idx)) (\<lambda>d.
        Inr (call out (set_level (fdiv (numTPDutyCycle s2 d) 100)) s2)))))"

definition mTPDisable :: "int \<Rightarrow> int \<Rightarrow> system \<Rightarrow> error + system" where
  "mTPDisable N idx s =
     (if idx < 0 \<or> idx \<ge> N then Inr s
      else deref (OutputArray (inst s) (nat idx)) (\<lambda>out. Inr (call out turn_off s)))"

definition mGetFrequency :: "int \<Rightarrow> int \<Rightarrow> system \<Rightarrow> error + float" where
  "mGetFrequency N idx s =
     (if idx < 0 \<or> idx \<ge> N then Inr 0
      else deref (FrequencyArray (inst s) (nat idx)) (\<lambda>f. Inr (numTPFrequency s f)))"

definition mSetFrequency :: "int \<Rightarrow> int \<Rightarrow> float \<Rightarrow> system \<Rightarrow> error + system" where
  "mSetFrequency N idx frequency s =
     (if idx < 0 \<or> idx \<ge> N then Inr s
      else
        deref (FrequencyArray (inst s) (nat idx)) (\<lambda>f.
        let s1 = publish_state f frequency s in
        deref (SwitchArray (inst s1) (nat idx)) (\<lambda>w.
        if switchTP s1 w
        then deref (OutputArray (inst s1) (nat idx)) (\<lambda>out.
               Inr (call out (update_frequency frequency) s1))
        else Inr s1)))"

definition mGetDutyCycle :: "int \<Rightarrow> int \<Rightarrow> system \<Rightarrow> error + float" where
  "mGetDutyCycle N idx s =
     (if idx < 0 \<or> idx \<ge> N then Inr 0
      else deref (DutyCycleArray (inst s) (nat idx)) (\<lambda>d. Inr (numTPDutyCycle s d)))"

definition mSetDutyCycle :: "(float \<Rightarrow> float \<Rightarrow> float) \<Rightarrow> int \<Rightarrow> int \<Rightarrow> float \<Rightarrow> system \<Rightarrow> error + system" where
  "mSetDutyCycle fdiv N idx duty_cycle s =
     (if idx < 0 \<or> idx \<ge> N then Inr s
      else
        deref (SwitchArray (inst s) (nat idx)) (\<lambda>w.
        if switchTP s w
        then deref (OutputArray (inst s) (nat idx)) (\<lambda>out.
               Inr (call out (set_level (fdiv duty_cycle 100)) s))
        else Inr s))"

definition mGetInputState :: "int \<Rightarrow> int \<Rightarrow> system \<Rightarrow> error + bool" where
  "mGetInputState N idx s =
     (if idx < 0 \<or> idx \<ge> N then Inr False
      else deref (InputArray (inst s) (nat idx)) (\<lambda>i. Inr (inputTP s i)))"

subsection \<open>Sequences of public operations\<close>

text \<open>
  The public member functions as events.  The components are ESPHome's and change
  outside the class as well (a switch is toggled, an input changes, a number is set, an
  output is driven): \<open>External\<close> replaces all component state and leaves the instance.
  \<open>step\<close> and \<open>run\<close> hand the division \<open>fdiv\<close> to the two accessors that divide.
\<close>

datatype event =
  Get
| IsEnabled int
| TPEnable int
| TPDisable int
| GetFrequency int
| SetFrequency int float
| GetDutyCycle int
| SetDutyCycle int float
| GetInputState int
| External "nat \<Rightarrow> LEDC_call list" "nat \<Rightarrow> bool" "nat \<Rightarrow> float" "nat \<Rightarrow> float" "nat \<Rightarrow> bool"

text \<open>A read accessor returns a value and leaves the system as it is.\<close>

definition reading :: "error + 'a \<Rightarrow> system \<Rightarrow> error + system" where
  "reading r s = (case r of Inl e \<Rightarrow> Inl e | Inr _ \<Rightarrow> Inr s)"

fun step :: "(float \<Rightarrow> float \<Rightarrow> float) \<Rightarrow> int \<Rightarrow> event \<Rightarrow> system \<Rightarrow> error + system" where
  "step fdiv N Get s = Inr (mGet N s)"
| "step fdiv N (IsEnabled idx) s = reading (mIsEnabled N idx s) s"
| "step fdiv N (TPEnable idx) s = mTPEnable fdiv N idx s"
| "step fdiv N (TPDisable idx) s = mTPDisable N idx s"
| "step fdiv N (GetFrequency idx) s = reading (mGetFrequency N idx s) s"
| "step fdiv N (SetFrequency idx v) s = mSetFrequency N idx v s"
| "step fdiv N (GetDutyCycle idx) s = reading (mGetDutyCycle N idx s) s"
| "step fdiv N (SetDutyCycle idx v) s = mSetDutyCycle fdiv N idx v s"
| "step fdiv N (GetInputState idx) s = reading (mGetInputState N idx s) s"
| "step fdiv N (External out sw dc fr inp) s =
     Inr (s\<lparr>outputTP := out, switchTP := sw, numTPDutyCycle := dc, numTPFrequency := fr,
            inputTP := inp\<rparr>)"

fun run :: "(float \<Rightarrow> float \<Rightarrow> float) \<Rightarrow> int \<Rightarrow> event list \<Rightarrow> system \<Rightarrow> error + system" where
  "run fdiv N [] s = Inr s"
| "run fdiv N (e # es) s = (case step fdiv N e s of Inl err \<Rightarrow> Inl err | Inr s' \<Rightarrow> run fdiv N es s')"

text \<open>All five pointers of every slot below \<open>N\<close> are set.\<close>

definition all_bound :: "int \<Rightarrow> phb_test \<Rightarrow> bool" where
  "all_bound N r \<longleftrightarrow>
     (\<forall>i \<in> {0..<nat N}.
        InputArray r i \<noteq> None \<and> OutputArray r i \<noteq> None \<and> DutyCycleArray r i \<noteq> None \<and>
        FrequencyArray r i \<noteq> None \<and> SwitchArray r i \<noteq> None)"

text \<open>
  What the loop of \<open>setup\<close>, entered with loop variable \<open>i\<close>, leaves in slot \<open>j\<close> of an
  array that held \<open>a\<close>: the slots from \<open>i\<close> on that are below \<open>N\<close> and below 8 point to the
  object of their own number, the others are as before.
\<close>

definition bound_from :: "int \<Rightarrow> int \<Rightarrow> (nat \<Rightarrow> ptr) \<Rightarrow> nat \<Rightarrow> ptr" where
  "bound_from N i a j = (if nat i \<le> j \<and> int j < N \<and> j < 8 then Some j else a j)"

section \<open>The reset reason (esp32bootcode.h)\<close>

text \<open>
  \<open>esp_reset_reason_t\<close> is the enumeration of ESP-IDF's \<open>esp_system.h\<close>.  The source
  names eleven of its values; \<open>ESP_RST_other c\<close> is any further value \<open>c\<close> the type holds.
  \<open>mGetBootReason\<close> is given the value that \<open>esp_reset_reason()\<close> returns.
\<close>

datatype esp_reset_reason_t =
  ESP_RST_UNKNOWN
| ESP_RST_POWERON
| ESP_RST_EXT
| ESP_RST_SW
| ESP_RST_PANIC
| ESP_RST_INT_WDT
| ESP_RST_TASK_WDT
| ESP_RST_WDT
| ESP_RST_DEEPSLEEP
| ESP_RST_BROWNOUT
| ESP_RST_SDIO
| ESP_RST_other int

fun mGetBootReason :: "esp_reset_reason_t \<Rightarrow> string" where
  "mGetBootReason ESP_RST_POWERON   = ''Power On Reset''"
| "mGetBootReason ESP_RST_EXT       = ''External System Reset''"
| "mGetBootReason ESP_RST_SW        = ''Software Reset''"
| "mGetBootReason ESP_RST_PANIC     = ''Exception/Panic''"
| "mGetBootReason ESP_RST_INT_WDT   = ''Interrupt Watchdog''"
| "mGetBootReason ESP_RST_TASK_WDT  = ''Task Watchdog''"
| "mGetBootReason ESP_RST_WDT       = ''Other Watchdog''"
| "mGetBootReason ESP_RST_DEEPSLEEP = ''Deep Sleep Reset''"
| "mGetBootReason ESP_RST_BROWNOUT  = ''Brownout Reset''"
| "mGetBootReason ESP_RST_SDIO      = ''SDIO Reset''"
| "mGetBootReason _                 = ''Unknown''"

text \<open>The ten causes the switch of \<open>mGetBootReason\<close> lists, and the eleven strings it returns.\<close>

definition listed_causes :: "esp_reset_reason_t list" where
  "listed_causes =
     [ESP_RST_POWERON, ESP_RST_EXT, ESP_RST_SW, ESP_RST_PANIC, ESP_RST_INT_WDT,
      ESP_RST_TASK_WDT, ESP_RST_WDT, ESP_RST_DEEPSLEEP, ESP_RST_BROWNOUT, ESP_RST_SDIO]"

definition reason_strings :: "string list" where
  "reason_strings =
     [''Power On Reset'', ''External System Reset'', ''Software Reset'', ''Exception/Panic'',
      ''Interrupt Watchdog'', ''Task Watchdog'', ''Other Watchdog'', ''Deep Sleep Reset'',
      ''Brownout Reset'', ''SDIO Reset'', ''Unknown'']"

section \<open>Properties of \<open>setup\<close> and \<open>mGet\<close>\<close>

lemma setup_switch_eq:
  "setup_switch i r = (if 0 \<le> i \<and> i < 8 then bind_case (nat i) (nat i) r else r)"
proof -
  consider "i < 0" | "i = 0" | "i = 1" | "i = 2" | "i = 3" | "i = 4" | "i = 5" | "i = 6"
    | "i = 7" | "8 \<le> i" by linarith
  then show ?thesis by cases (simp_all add: setup_switch_def)
qed

lemma setup_loop_step:
  "i < N \<Longrightarrow> setup_loop N i r = setup_loop N (i + 1) (setup_switch i r)"
  by (subst setup_loop.simps) simp

lemma setup_loop_stop: "\<not> i < N \<Longrightarrow> setup_loop N i r = r"
  by (subst setup_loop.simps) simp

lemma setup_loop_Initialized: "Initialized (setup_loop N i r) = Initialized r"
proof (induction N i r rule: setup_loop.induct)
  case (1 N i r)
  show ?case
  proof (cases "i < N")
    case True
    have "Initialized (setup_switch i r) = Initialized r"
      by (simp add: setup_switch_eq bind_case_def)
    with True "1.IH" show ?thesis by (simp only: setup_loop_step [OF True])
  next
    case False
    show ?thesis by (simp only: setup_loop_stop [OF False])
  qed
qed

lemma bound_from_step:
  assumes "0 \<le> i" "i < N"
  shows "bound_from N (i + 1) (if i < 8 then a(nat i \<mapsto> nat i) else a) j = bound_from N i a j"
  using assms by (auto simp: bound_from_def)

lemma bound_from_stop: "\<not> i < N \<Longrightarrow> bound_from N i a j = a j"
  by (auto simp: bound_from_def)

lemma setup_loop_arrays:
  assumes "0 \<le> i"
  shows "OutputArray (setup_loop N i r) j = bound_from N i (OutputArray r) j
       \<and> SwitchArray (setup_loop N i r) j = bound_from N i (SwitchArray r) j
       \<and> DutyCycleArray (setup_loop N i r) j = bound_from N i (DutyCycleArray r) j
       \<and> FrequencyArray (setup_loop N i r) j = bound_from N i (FrequencyArray r) j
       \<and> InputArray (setup_loop N i r) j = bound_from N i (InputArray r) j"
  using assms
proof (induction N i r rule: setup_loop.induct)
  case (1 N i r)
  show ?case
  proof (cases "i < N")
    case True
    from "1.prems" have "0 \<le> i + 1" by simp
    from "1.IH" [OF True this]
    have ih: "OutputArray (setup_loop N i r) j = bound_from N (i + 1) (OutputArray (setup_switch i r)) j"
      "SwitchArray (setup_loop N i r) j = bound_from N (i + 1) (SwitchArray (setup_switch i r)) j"
      "DutyCycleArray (setup_loop N i r) j = bound_from N (i + 1) (DutyCycleArray (setup_switch i r)) j"
      "FrequencyArray (setup_loop N i r) j = bound_from N (i + 1) (FrequencyArray (setup_switch i r)) j"
      "InputArray (setup_loop N i r) j = bound_from N (i + 1) (InputArray (setup_switch i r)) j"
      by (simp_all only: setup_loop_step [OF True])
    have sw: "OutputArray (setup_switch i r) = (if i < 8 then (OutputArray r)(nat i \<mapsto> nat i) else OutputArray r)"
      "SwitchArray (setup_switch i r) = (if i < 8 then (SwitchArray r)(nat i \<mapsto> nat i) else SwitchArray r)"
      "DutyCycleArray (setup_switch i r) = (if i < 8 then (DutyCycleArray r)(nat i \<mapsto> nat i) else DutyCycleArray r)"
      "FrequencyArray (setup_switch i r) = (if i < 8 then (FrequencyArray r)(nat i \<mapsto> nat i) else FrequencyArray r)"
      "InputArray (setup_switch i r) = (if i < 8 then (InputArray r)(nat i \<mapsto> nat i) else InputArray r)"
      using "1.prems" by (simp_all add: setup_switch_eq bind_case_def)
    show ?thesis
      unfolding ih sw by (simp only: bound_from_step [OF "1.prems" True])
  next
    case False
    show ?thesis by (simp only: setup_loop_stop [OF False] bound_from_stop [OF False])
  qed
qed

lemma setup_new_arrays:
  "OutputArray (phb_test_setup N phb_test_new) j = (if int j < N \<and> j < 8 then Some j else None)"
  "SwitchArray (phb_test_setup N phb_test_new) j = (if int j < N \<and> j < 8 then Some j else None)"
  "DutyCycleArray (phb_test_setup N phb_test_new) j = (if int j < N \<and> j < 8 then Some j else None)"
  "FrequencyArray (phb_test_setup N phb_test_new) j = (if int j < N \<and> j < 8 then Some j else None)"
  "InputArray (phb_test_setup N phb_test_new) j = (if int j < N \<and> j < 8 then Some j else None)"
proof -
  have n: "\<not> Initialized phb_test_new" by (simp add: phb_test_new_def)
  have a: "OutputArray phb_test_new j = None" "SwitchArray phb_test_new j = None"
    "DutyCycleArray phb_test_new j = None" "FrequencyArray phb_test_new j = None"
    "InputArray phb_test_new j = None"
    by (simp_all add: phb_test_new_def)
  have b: "bound_from N 0 (\<lambda>_. None) j = (if int j < N \<and> j < 8 then Some j else None)"
    by (simp add: bound_from_def)
  have c: "bound_from N 0 a j = (if int j < N \<and> j < 8 then Some j else a j)" for a
    by (simp add: bound_from_def)
  from setup_loop_arrays [of 0 N phb_test_new j]
  show "OutputArray (phb_test_setup N phb_test_new) j = (if int j < N \<and> j < 8 then Some j else None)"
  "SwitchArray (phb_test_setup N phb_test_new) j = (if int j < N \<and> j < 8 then Some j else None)"
  "DutyCycleArray (phb_test_setup N phb_test_new) j = (if int j < N \<and> j < 8 then Some j else None)"
  "FrequencyArray (phb_test_setup N phb_test_new) j = (if int j < N \<and> j < 8 then Some j else None)"
  "InputArray (phb_test_setup N phb_test_new) j = (if int j < N \<and> j < 8 then Some j else None)"
    by (simp_all add: phb_test_setup_def n a c)
qed

lemma setup_Initialized: "Initialized (phb_test_setup N r)"
  by (simp add: phb_test_setup_def)

lemma setup_when_Initialized: "Initialized r \<Longrightarrow> phb_test_setup N r = r"
  by (simp add: phb_test_setup_def)

lemma mGet_Initialized: "Initialized (inst (mGet N s))"
  by (simp add: mGet_def)

lemma mGet_when_Initialized: "Initialized (inst s) \<Longrightarrow> mGet N s = s"
  by (simp add: mGet_def)

lemma mGet_inst_new:
  assumes "inst s = phb_test_new"
  shows "inst (mGet N s) = phb_test_setup N phb_test_new"
proof -
  have n: "\<not> Initialized phb_test_new" by (simp add: phb_test_new_def)
  have "(phb_test_setup N phb_test_new)\<lparr>Initialized := True\<rparr> = phb_test_setup N phb_test_new"
    by (simp add: phb_test_setup_def n)
  with assms n show ?thesis by (simp add: mGet_def)
qed

lemma all_bound_setup_new:
  assumes "N \<le> 8"
  shows "all_bound N (phb_test_setup N phb_test_new)"
proof -
  have "int i < N \<and> i < 8" if "i \<in> {0..<nat N}" for i
    using that assms by auto
  then show ?thesis by (simp add: all_bound_def setup_new_arrays)
qed

lemma all_bound_D:
  assumes "all_bound N r" and "0 \<le> idx" and "idx < N"
  obtains i out d f w where "InputArray r (nat idx) = Some i" and "OutputArray r (nat idx) = Some out"
    and "DutyCycleArray r (nat idx) = Some d" and "FrequencyArray r (nat idx) = Some f"
    and "SwitchArray r (nat idx) = Some w"
proof -
  from assms(2,3) have "nat idx \<in> {0..<nat N}" by simp
  with assms(1) have "InputArray r (nat idx) \<noteq> None \<and> OutputArray r (nat idx) \<noteq> None \<and>
      DutyCycleArray r (nat idx) \<noteq> None \<and> FrequencyArray r (nat idx) \<noteq> None \<and>
      SwitchArray r (nat idx) \<noteq> None"
    unfolding all_bound_def by (rule bspec)
  with that show thesis by blast
qed

subsection \<open>What each accessor does to the system\<close>

lemma deref_Some: "deref (Some a) k = k a"
  by (simp add: deref_def)

lemma deref_None: "deref None k = Inl NullPointer"
  by (simp add: deref_def)

lemma inst_call: "inst (call out c s) = inst s"
  by (simp add: call_def)

lemma inst_publish_state: "inst (publish_state f v s) = inst s"
  by (simp add: publish_state_def)

lemma mTPEnable_inst: "mTPEnable fdiv N idx s = Inr s' \<Longrightarrow> inst s' = inst s"
  by (auto simp: mTPEnable_def deref_def Let_def inst_call split: if_splits option.splits)

lemma mTPDisable_inst: "mTPDisable N idx s = Inr s' \<Longrightarrow> inst s' = inst s"
  by (auto simp: mTPDisable_def deref_def inst_call split: if_splits option.splits)

lemma mSetFrequency_inst: "mSetFrequency N idx v s = Inr s' \<Longrightarrow> inst s' = inst s"
  by (auto simp: mSetFrequency_def deref_def Let_def inst_call inst_publish_state
      split: if_splits option.splits)

lemma mSetDutyCycle_inst: "mSetDutyCycle fdiv N idx v s = Inr s' \<Longrightarrow> inst s' = inst s"
  by (auto simp: mSetDutyCycle_def deref_def inst_call split: if_splits option.splits)

lemma reading_Inr: "reading r s = Inr s' \<Longrightarrow> s' = s"
  by (cases r) (simp_all add: reading_def)

lemma step_inst:
  assumes "Initialized (inst s)" and "step fdiv N e s = Inr s'"
  shows "inst s' = inst s"
proof (cases e)
  case Get
  with assms show ?thesis by (simp add: mGet_when_Initialized)
next
  case (IsEnabled idx)
  with assms(2) show ?thesis by (auto dest: reading_Inr)
next
  case (TPEnable idx)
  with assms(2) show ?thesis by (simp add: mTPEnable_inst)
next
  case (TPDisable idx)
  with assms(2) show ?thesis by (simp add: mTPDisable_inst)
next
  case (GetFrequency idx)
  with assms(2) show ?thesis by (auto dest: reading_Inr)
next
  case (SetFrequency idx v)
  with assms(2) show ?thesis by (simp add: mSetFrequency_inst)
next
  case (GetDutyCycle idx)
  with assms(2) show ?thesis by (auto dest: reading_Inr)
next
  case (SetDutyCycle idx v)
  with assms(2) show ?thesis by (simp add: mSetDutyCycle_inst)
next
  case (GetInputState idx)
  with assms(2) show ?thesis by (auto dest: reading_Inr)
next
  case (External out sw dc fr inp)
  with assms(2) show ?thesis by auto
qed

lemma run_inst:
  "Initialized (inst s) \<Longrightarrow> run fdiv N es s = Inr s' \<Longrightarrow> inst s' = inst s"
proof (induction es arbitrary: s)
  case Nil
  then show ?case by simp
next
  case (Cons e es)
  from Cons.prems(2) obtain s1 where s1: "step fdiv N e s = Inr s1" and r: "run fdiv N es s1 = Inr s'"
    by (auto split: sum.splits)
  from step_inst [OF Cons.prems(1) s1] have i: "inst s1 = inst s" .
  with Cons.prems(1) have "Initialized (inst s1)" by simp
  from Cons.IH [OF this r] i show ?case by simp
qed

lemma mTPEnable_bound:
  assumes "0 \<le> idx" and "idx < N"
    and "OutputArray (inst s) (nat idx) = Some out"
    and "FrequencyArray (inst s) (nat idx) = Some f"
    and "DutyCycleArray (inst s) (nat idx) = Some d"
  shows "mTPEnable fdiv N idx s =
     Inr (s\<lparr>outputTP := (outputTP s)(out := outputTP s out @
            [turn_on, update_frequency (numTPFrequency s f),
             set_level (fdiv (numTPDutyCycle s d) 100)])\<rparr>)"
  using assms by (simp add: mTPEnable_def deref_def Let_def call_def)

lemma mTPDisable_bound:
  assumes "0 \<le> idx" and "idx < N"
    and "OutputArray (inst s) (nat idx) = Some out"
  shows "mTPDisable N idx s = Inr (s\<lparr>outputTP := (outputTP s)(out := outputTP s out @ [turn_off])\<rparr>)"
  using assms by (simp add: mTPDisable_def deref_def call_def)

lemma mSetFrequency_bound:
  assumes "0 \<le> idx" and "idx < N"
    and "FrequencyArray (inst s) (nat idx) = Some f"
    and "SwitchArray (inst s) (nat idx) = Some w"
    and "OutputArray (inst s) (nat idx) = Some out"
  shows "mSetFrequency N idx v s =
     Inr (s\<lparr>numTPFrequency := (numTPFrequency s)(f := v),
            outputTP := (if switchTP s w
                         then (outputTP s)(out := outputTP s out @ [update_frequency v])
                         else outputTP s)\<rparr>)"
  using assms by (simp add: mSetFrequency_def deref_def Let_def call_def publish_state_def)

lemma mSetDutyCycle_bound:
  assumes "0 \<le> idx" and "idx < N"
    and "SwitchArray (inst s) (nat idx) = Some w"
    and "OutputArray (inst s) (nat idx) = Some out"
  shows "mSetDutyCycle fdiv N idx v s =
     Inr (if switchTP s w
          then s\<lparr>outputTP := (outputTP s)(out := outputTP s out @ [set_level (fdiv v 100)])\<rparr>
          else s)"
  using assms by (simp add: mSetDutyCycle_def deref_def call_def)

lemma step_succeeds:
  assumes "all_bound N (inst s)"
  shows "\<exists>s'. step fdiv N e s = Inr s'"
proof -
  have acc: "(\<exists>b. mIsEnabled N idx s = Inr b) \<and> (\<exists>b. mGetInputState N idx s = Inr b) \<and>
      (\<exists>x. mGetFrequency N idx s = Inr x) \<and> (\<exists>x. mGetDutyCycle N idx s = Inr x) \<and>
      (\<exists>s'. mTPEnable fdiv N idx s = Inr s') \<and> (\<exists>s'. mTPDisable N idx s = Inr s') \<and>
      (\<exists>s'. mSetFrequency N idx v s = Inr s') \<and> (\<exists>s'. mSetDutyCycle fdiv N idx v s = Inr s')"
    for idx v
  proof (cases "0 \<le> idx \<and> idx < N")
    case True
    then have v: "0 \<le> idx" "idx < N" by simp_all
    from all_bound_D [OF assms v] obtain i out d f w where
      b: "InputArray (inst s) (nat idx) = Some i" "OutputArray (inst s) (nat idx) = Some out"
        "DutyCycleArray (inst s) (nat idx) = Some d" "FrequencyArray (inst s) (nat idx) = Some f"
        "SwitchArray (inst s) (nat idx) = Some w"
      by blast
    have "\<exists>b. mIsEnabled N idx s = Inr b" using v b by (simp add: mIsEnabled_def deref_def)
    moreover have "\<exists>b. mGetInputState N idx s = Inr b"
      using v b by (simp add: mGetInputState_def deref_def)
    moreover have "\<exists>x. mGetFrequency N idx s = Inr x"
      using v b by (simp add: mGetFrequency_def deref_def)
    moreover have "\<exists>x. mGetDutyCycle N idx s = Inr x"
      using v b by (simp add: mGetDutyCycle_def deref_def)
    moreover have "\<exists>s'. mTPEnable fdiv N idx s = Inr s'"
      by (simp add: mTPEnable_bound [OF v b(2) b(4) b(3)])
    moreover have "\<exists>s'. mTPDisable N idx s = Inr s'"
      by (simp add: mTPDisable_bound [OF v b(2)])
    moreover have "\<exists>s'. mSetFrequency N idx v s = Inr s'"
      by (simp add: mSetFrequency_bound [OF v b(4) b(5) b(2)])
    moreover have "\<exists>s'. mSetDutyCycle fdiv N idx v s = Inr s'"
      by (simp add: mSetDutyCycle_bound [OF v b(5) b(2)])
    ultimately show ?thesis by blast
  next
    case False
    then have "idx < 0 \<or> idx \<ge> N" by linarith
    then show ?thesis
      by (auto simp: mIsEnabled_def mGetInputState_def mGetFrequency_def mGetDutyCycle_def
          mTPEnable_def mTPDisable_def mSetFrequency_def mSetDutyCycle_def)
  qed
  show ?thesis
  proof (cases e)
    case Get then show ?thesis by simp
  next
    case (IsEnabled idx)
    with acc [of idx 0] show ?thesis by (auto simp: reading_def)
  next
    case (TPEnable idx)
    with acc [of idx 0] show ?thesis by simp
  next
    case (TPDisable idx)
    with acc [of idx 0] show ?thesis by simp
  next
    case (GetFrequency idx)
    with acc [of idx 0] show ?thesis by (auto simp: reading_def)
  next
    case (SetFrequency idx v)
    with acc [of idx v] show ?thesis by simp
  next
    case (GetDutyCycle idx)
    with acc [of idx 0] show ?thesis by (auto simp: reading_def)
  next
    case (SetDutyCycle idx v)
    with acc [of idx v] show ?thesis by simp
  next
    case (GetInputState idx)
    with acc [of idx 0] show ?thesis by (auto simp: reading_def)
  next
    case (External out sw dc fr inp)
    then show ?thesis by simp
  qed
qed

lemma run_succeeds:
  "Initialized (inst s) \<Longrightarrow> all_bound N (inst s) \<Longrightarrow> \<exists>s'. run fdiv N es s = Inr s'"
proof (induction es arbitrary: s)
  case Nil
  then show ?case by simp
next
  case (Cons e es)
  from step_succeeds [OF Cons.prems(2)] obtain s1 where s1: "step fdiv N e s = Inr s1" by blast
  from step_inst [OF Cons.prems(1) s1] have "inst s1 = inst s" .
  with Cons.prems have "Initialized (inst s1)" "all_bound N (inst s1)" by simp_all
  from Cons.IH [OF this] s1 show ?case by simp
qed

subsection \<open>The example system\<close>

lemma mGet_components:
  "outputTP (mGet N s) = outputTP s" "switchTP (mGet N s) = switchTP s"
  "numTPDutyCycle (mGet N s) = numTPDutyCycle s" "numTPFrequency (mGet N s) = numTPFrequency s"
  "inputTP (mGet N s) = inputTP s"
  by (simp_all add: mGet_def)

lemma boot_fields:
  "inst (boot sw dc fr inp) = phb_test_new" "outputTP (boot sw dc fr inp) = (\<lambda>_. [])"
  "switchTP (boot sw dc fr inp) = sw" "numTPDutyCycle (boot sw dc fr inp) = dc"
  "numTPFrequency (boot sw dc fr inp) = fr" "inputTP (boot sw dc fr inp) = inp"
  by (simp_all add: boot_def)

lemma boot_pointers:
  "OutputArray (inst (mGet N (boot sw dc fr inp))) j = (if int j < N \<and> j < 8 then Some j else None)"
  "SwitchArray (inst (mGet N (boot sw dc fr inp))) j = (if int j < N \<and> j < 8 then Some j else None)"
  "DutyCycleArray (inst (mGet N (boot sw dc fr inp))) j = (if int j < N \<and> j < 8 then Some j else None)"
  "FrequencyArray (inst (mGet N (boot sw dc fr inp))) j = (if int j < N \<and> j < 8 then Some j else None)"
  "InputArray (inst (mGet N (boot sw dc fr inp))) j = (if int j < N \<and> j < 8 then Some j else None)"
  by (simp_all add: mGet_inst_new [OF boot_fields(1)] setup_new_arrays)

lemma example_boot_fields:
  "inst (example_boot sw) = phb_test_new" "outputTP (example_boot sw) = (\<lambda>_. [])"
  "switchTP (example_boot sw) = (\<lambda>_. sw)" "numTPDutyCycle (example_boot sw) = (\<lambda>_. 50)"
  "numTPFrequency (example_boot sw) = (\<lambda>_. 1000)" "inputTP (example_boot sw) = (\<lambda>_. False)"
  by (simp_all add: example_boot_def boot_fields)

lemma example_pointers:
  "OutputArray (inst (mGet N (example_boot sw))) j = (if int j < N \<and> j < 8 then Some j else None)"
  "SwitchArray (inst (mGet N (example_boot sw))) j = (if int j < N \<and> j < 8 then Some j else None)"
  "DutyCycleArray (inst (mGet N (example_boot sw))) j = (if int j < N \<and> j < 8 then Some j else None)"
  "FrequencyArray (inst (mGet N (example_boot sw))) j = (if int j < N \<and> j < 8 then Some j else None)"
  "InputArray (inst (mGet N (example_boot sw))) j = (if int j < N \<and> j < 8 then Some j else None)"
  by (simp_all add: example_boot_def boot_pointers)

lemma example_boot_80_fields:
  "inst example_boot_80 = phb_test_new" "outputTP example_boot_80 = (\<lambda>_. [])"
  "switchTP example_boot_80 = (\<lambda>_. True)" "numTPDutyCycle example_boot_80 = (\<lambda>_. 80)"
  "numTPFrequency example_boot_80 = (\<lambda>_. 500)" "inputTP example_boot_80 = (\<lambda>_. False)"
  by (simp_all add: example_boot_80_def boot_fields)

lemma example_80_pointers:
  "OutputArray (inst (mGet N example_boot_80)) j = (if int j < N \<and> j < 8 then Some j else None)"
  "SwitchArray (inst (mGet N example_boot_80)) j = (if int j < N \<and> j < 8 then Some j else None)"
  "DutyCycleArray (inst (mGet N example_boot_80)) j = (if int j < N \<and> j < 8 then Some j else None)"
  "FrequencyArray (inst (mGet N example_boot_80)) j = (if int j < N \<and> j < 8 then Some j else None)"
  "InputArray (inst (mGet N example_boot_80)) j = (if int j < N \<and> j < 8 then Some j else None)"
  by (simp_all add: example_boot_80_def boot_pointers)

text \<open>
  The values of \<open>example_div\<close>.  A binary32 value in \<open>[1/2, 1)\<close> is \<open>m / 2^24\<close> and one in
  \<open>[1/4, 1/2)\<close> is \<open>m / 2^25\<close>, with \<open>2^23 \<le> m < 2^24\<close>; the two inexact quotients are
  nearer to the exact quotient than half of that spacing, so they are the binary32
  quotients.
\<close>

lemma example_div_values:
  "example_div 80 100 = 13421773 / 2 ^ 24" "example_div 33 100 = 11072963 / 2 ^ 25"
  "example_div 50 100 = 1 / 2" "example_div 25 100 = 1 / 4"
  by (simp_all add: example_div_def)

lemma example_div_80_nearest:
  "(2::real) ^ 23 \<le> 13421773 \<and> (13421773::real) < 2 ^ 24 \<and>
   1 / 2 \<le> (13421773::real) / 2 ^ 24 \<and> (13421773::real) / 2 ^ 24 < 1 \<and>
   \<bar>example_div 80 100 - 80 / 100\<bar> < 1 / 2 ^ 25"
  by (simp add: example_div_def abs_real_def)

lemma example_div_33_nearest:
  "(2::real) ^ 23 \<le> 11072963 \<and> (11072963::real) < 2 ^ 24 \<and>
   1 / 4 \<le> (11072963::real) / 2 ^ 25 \<and> (11072963::real) / 2 ^ 25 < 1 / 2 \<and>
   \<bar>example_div 33 100 - 33 / 100\<bar> < 1 / 2 ^ 26"
  by (simp add: example_div_def abs_real_def)

lemma mSetDutyCycle_numTPDutyCycle:
  "mSetDutyCycle fdiv N idx v s = Inr s' \<Longrightarrow> numTPDutyCycle s' = numTPDutyCycle s"
  by (auto simp: mSetDutyCycle_def deref_def call_def split: if_splits option.splits)

lemma mTPEnable_switchTP: "mTPEnable fdiv N idx s = Inr s' \<Longrightarrow> switchTP s' = switchTP s"
  by (auto simp: mTPEnable_def deref_def call_def Let_def split: if_splits option.splits)

lemma mTPDisable_switchTP: "mTPDisable N idx s = Inr s' \<Longrightarrow> switchTP s' = switchTP s"
  by (auto simp: mTPDisable_def deref_def call_def split: if_splits option.splits)

section \<open>The properties of the specification\<close>

text \<open>
  C1: for every valid index and every value \<open>v\<close>, \<open>setDutyCycle(idx, v)\<close> updates the stored
  value of the bound duty-cycle parameter, so that \<open>getDutyCycle(idx)\<close> then returns \<open>v\<close>,
  enabled or not.

  \<open>mSetDutyCycle\<close> has no \<open>publish_state\<close> call (\<open>mSetFrequency\<close> has one), so the stored
  value stays: with 8 test points initialised by \<open>mGet\<close>, a stored duty cycle of 50 and the
  switch off, \<open>mSetDutyCycle(0, 25)\<close> leaves the system as it was and \<open>mGetDutyCycle(0)\<close>
  returns 50; with the switch on the output receives \<open>set_level(25.0f / 100.0f)\<close> and
  \<open>mGetDutyCycle(0)\<close> still returns 50.  This holds whatever the division \<open>fdiv\<close> is.
\<close>

theorem mSetDutyCycle_does_not_store:
  "mSetDutyCycle fdiv 8 0 25 (mGet 8 (example_boot False)) = Inr (mGet 8 (example_boot False)) \<and>
   mGetDutyCycle 8 0 (mGet 8 (example_boot False)) = Inr 50 \<and>
   (\<exists>s'. mSetDutyCycle fdiv 8 0 25 (mGet 8 (example_boot True)) = Inr s' \<and>
         outputTP s' 0 = [set_level (fdiv 25 100)] \<and> mGetDutyCycle 8 0 s' = Inr 50)"
  by (simp add: mSetDutyCycle_def mGetDutyCycle_def deref_def call_def example_pointers
      mGet_components example_boot_fields)

text \<open>
  C2: for every valid index, right after \<open>enable(idx)\<close> the query \<open>isEnabled(idx)\<close> returns
  true, and right after \<open>disable(idx)\<close> it returns false.

  \<open>mTPEnable\<close> and \<open>mTPDisable\<close> call the output (\<open>turn_on\<close>, \<open>turn_off\<close>) and never write the
  switch, whose \<open>state\<close> is what \<open>mIsEnabled\<close> returns: with the switch of test point 0
  off, \<open>mIsEnabled(0)\<close> after \<open>mTPEnable(0)\<close> returns false; with it on, \<open>mIsEnabled(0)\<close>
  after \<open>mTPDisable(0)\<close> returns true.
\<close>

theorem mTPEnable_leaves_switch_state:
  "(\<exists>s'. mTPEnable fdiv 8 0 (mGet 8 (example_boot False)) = Inr s' \<and>
         outputTP s' 0 = [turn_on, update_frequency 1000, set_level (fdiv 50 100)] \<and>
         mIsEnabled 8 0 s' = Inr False) \<and>
   (\<exists>s'. mTPDisable 8 0 (mGet 8 (example_boot True)) = Inr s' \<and>
         outputTP s' 0 = [turn_off] \<and> mIsEnabled 8 0 s' = Inr True)"
  by (simp add: mTPEnable_def mTPDisable_def mIsEnabled_def deref_def call_def Let_def
      example_pointers mGet_components example_boot_fields)

text \<open>
  C3: for an index within \<open>[0, N)\<close> whose slot was never bound, every accessor checks for
  the absent binding before dereferencing and behaves as for an invalid index.

  The accessors check the range only.  With \<open>DEF_TEST_POINTS = 9\<close> the loop of \<open>setup\<close>
  reaches \<open>case 8\<close>, which logs and binds nothing, so slot 8 keeps its \<open>nullptr\<close>; index 8
  passes the range check of every accessor, and each of the eight reads through the
  null pointer.  At the invalid index 9 the same accessors return the default or do
  nothing.
\<close>

theorem unbound_slot_is_dereferenced:
  "mIsEnabled 9 8 (mGet 9 (example_boot False)) = Inl NullPointer \<and>
   mTPEnable fdiv 9 8 (mGet 9 (example_boot False)) = Inl NullPointer \<and>
   mTPDisable 9 8 (mGet 9 (example_boot False)) = Inl NullPointer \<and>
   mGetFrequency 9 8 (mGet 9 (example_boot False)) = Inl NullPointer \<and>
   mSetFrequency 9 8 500 (mGet 9 (example_boot False)) = Inl NullPointer \<and>
   mGetDutyCycle 9 8 (mGet 9 (example_boot False)) = Inl NullPointer \<and>
   mSetDutyCycle fdiv 9 8 25 (mGet 9 (example_boot False)) = Inl NullPointer \<and>
   mGetInputState 9 8 (mGet 9 (example_boot False)) = Inl NullPointer \<and>
   mIsEnabled 9 9 (mGet 9 (example_boot False)) = Inr False \<and>
   mTPEnable fdiv 9 9 (mGet 9 (example_boot False)) = Inr (mGet 9 (example_boot False))"
  by (simp add: mIsEnabled_def mTPEnable_def mTPDisable_def mGetFrequency_def mSetFrequency_def
      mGetDutyCycle_def mSetDutyCycle_def mGetInputState_def deref_def example_pointers)

text \<open>
  C4: for every valid index, \<open>enable(idx)\<close> performs exactly three side effects on the
  bound output driver, in this order: it commands the output on, applies the stored
  frequency, and applies the stored duty cycle divided by 100.

  The resulting system is the given one with these three calls appended, in this order,
  to the calls received by the bound output; nothing else differs.  The level passed is
  the quotient of the stored duty cycle and \<open>100.0f\<close> under the division \<open>fdiv\<close> of the
  target, for every such division.
\<close>

theorem mTPEnable_three_calls_in_order:
  assumes "0 \<le> idx" and "idx < N"
    and "OutputArray (inst s) (nat idx) = Some out"
    and "FrequencyArray (inst s) (nat idx) = Some f"
    and "DutyCycleArray (inst s) (nat idx) = Some d"
  shows "mTPEnable fdiv N idx s =
     Inr (s\<lparr>outputTP := (outputTP s)(out := outputTP s out @
            [turn_on, update_frequency (numTPFrequency s f),
             set_level (fdiv (numTPDutyCycle s d) 100)])\<rparr>)"
  using assms by (rule mTPEnable_bound)

text \<open>
  At test point 2 of the second example system (500 Hz, duty cycle 80) the level is the
  binary32 quotient \<open>13421773 / 2^24\<close>.
\<close>

theorem mTPEnable_three_calls_in_order_witness:
  "(0::int) \<le> 2 \<and> (2::int) < 8 \<and>
   OutputArray (inst (mGet 8 example_boot_80)) (nat 2) = Some 2 \<and>
   FrequencyArray (inst (mGet 8 example_boot_80)) (nat 2) = Some 2 \<and>
   DutyCycleArray (inst (mGet 8 example_boot_80)) (nat 2) = Some 2 \<and>
   (\<exists>s'. mTPEnable example_div 8 2 (mGet 8 example_boot_80) = Inr s' \<and>
         outputTP s' 2 = [turn_on, update_frequency 500, set_level (13421773 / 2 ^ 24)] \<and>
         outputTP s' 3 = [])"
proof -
  have p: "OutputArray (inst (mGet 8 example_boot_80)) (nat 2) = Some 2"
    "FrequencyArray (inst (mGet 8 example_boot_80)) (nat 2) = Some 2"
    "DutyCycleArray (inst (mGet 8 example_boot_80)) (nat 2) = Some 2"
    by (simp_all add: example_80_pointers)
  from mTPEnable_three_calls_in_order [where N = 8 and fdiv = example_div, OF _ _ p] p
  show ?thesis
    by (simp add: mGet_components example_boot_80_fields example_div_values)
qed

text \<open>
  C5: for every valid index and value \<open>v\<close>, \<open>setFrequency(idx, v)\<close> always stores \<open>v\<close> in the
  bound frequency parameter, so that \<open>getFrequency(idx)\<close> then returns \<open>v\<close>, and passes \<open>v\<close>
  to the output driver if and only if the switch of the test point is on.
\<close>

theorem mSetFrequency_stores_and_propagates_when_on:
  assumes "0 \<le> idx" and "idx < N"
    and "FrequencyArray (inst s) (nat idx) = Some f"
    and "SwitchArray (inst s) (nat idx) = Some w"
    and "OutputArray (inst s) (nat idx) = Some out"
  shows "\<exists>s'. mSetFrequency N idx v s = Inr s' \<and>
     mGetFrequency N idx s' = Inr v \<and> numTPFrequency s' f = v \<and>
     outputTP s' = (if switchTP s w
                    then (outputTP s)(out := outputTP s out @ [update_frequency v])
                    else outputTP s)"
  using assms
  by (simp add: mSetFrequency_bound [OF assms] mGetFrequency_def deref_def)

theorem mSetFrequency_stores_and_propagates_when_on_witness:
  "(0::int) \<le> 2 \<and> (2::int) < 8 \<and>
   FrequencyArray (inst (mGet 8 (example_boot False))) (nat 2) = Some 2 \<and>
   SwitchArray (inst (mGet 8 (example_boot False))) (nat 2) = Some 2 \<and>
   OutputArray (inst (mGet 8 (example_boot False))) (nat 2) = Some 2 \<and>
   (\<exists>s'. mSetFrequency 8 2 500 (mGet 8 (example_boot False)) = Inr s' \<and>
         mGetFrequency 8 2 s' = Inr 500 \<and> outputTP s' 2 = []) \<and>
   (\<exists>s'. mSetFrequency 8 2 500 (mGet 8 (example_boot True)) = Inr s' \<and>
         mGetFrequency 8 2 s' = Inr 500 \<and> outputTP s' 2 = [update_frequency 500])"
proof -
  have p: "FrequencyArray (inst (mGet 8 (example_boot sw))) (nat 2) = Some 2"
    "SwitchArray (inst (mGet 8 (example_boot sw))) (nat 2) = Some 2"
    "OutputArray (inst (mGet 8 (example_boot sw))) (nat 2) = Some 2" for sw
    by (simp_all add: example_pointers)
  from mSetFrequency_stores_and_propagates_when_on [where N = 8 and v = 500, OF _ _ p [of False]]
    mSetFrequency_stores_and_propagates_when_on [where N = 8 and v = 500, OF _ _ p [of True]]
    p [of False]
  show ?thesis
    by (auto simp: mGet_components example_boot_fields)
qed

text \<open>
  C6: for every index with \<open>idx < 0\<close> or \<open>idx \<ge> N\<close>, the read accessors return their
  defaults (false for \<open>isEnabled\<close> and \<open>getInputState\<close>, 0.0 for \<open>getFrequency\<close> and
  \<open>getDutyCycle\<close>) and the four mutators return the system unchanged.
\<close>

theorem invalid_index_defaults_and_no_ops:
  assumes "idx < 0 \<or> idx \<ge> N"
  shows "mIsEnabled N idx s = Inr False \<and> mGetInputState N idx s = Inr False \<and>
     mGetFrequency N idx s = Inr 0 \<and> mGetDutyCycle N idx s = Inr 0 \<and>
     mTPEnable fdiv N idx s = Inr s \<and> mTPDisable N idx s = Inr s \<and>
     mSetFrequency N idx v s = Inr s \<and> mSetDutyCycle fdiv N idx v s = Inr s"
  using assms
  by (simp add: mIsEnabled_def mGetInputState_def mGetFrequency_def mGetDutyCycle_def
      mTPEnable_def mTPDisable_def mSetFrequency_def mSetDutyCycle_def)

theorem invalid_index_defaults_and_no_ops_witness:
  "(8::int) \<ge> 8 \<and> (-1::int) < 0 \<and>
   mIsEnabled 8 8 (mGet 8 (example_boot True)) = Inr False \<and>
   mGetFrequency 8 8 (mGet 8 (example_boot True)) = Inr 0 \<and>
   mTPEnable example_div 8 8 (mGet 8 (example_boot True)) = Inr (mGet 8 (example_boot True)) \<and>
   mSetDutyCycle example_div 8 (-1) 80 (mGet 8 (example_boot True)) =
     Inr (mGet 8 (example_boot True))"
  using invalid_index_defaults_and_no_ops [where idx = 8 and N = 8 and fdiv = example_div
      and s = "mGet 8 (example_boot True)" and v = 80]
    invalid_index_defaults_and_no_ops [where idx = "-1" and N = 8 and fdiv = example_div
      and s = "mGet 8 (example_boot True)" and v = 80]
  by simp

text \<open>
  C7: for every valid index, \<open>disable(idx)\<close> commands the bound output off and changes
  nothing else: the stored frequency and duty cycle, and everything at the other
  indices, stay, so that a following \<open>enable(idx)\<close> applies the last stored values again.

  The level that the following \<open>enable\<close> passes is the quotient of the stored duty cycle
  and \<open>100.0f\<close> under the division \<open>fdiv\<close> of the target, for every such division.
\<close>

theorem mTPDisable_only_turns_output_off:
  assumes "0 \<le> idx" and "idx < N"
    and "OutputArray (inst s) (nat idx) = Some out"
    and "FrequencyArray (inst s) (nat idx) = Some f"
    and "DutyCycleArray (inst s) (nat idx) = Some d"
  shows "\<exists>s'. mTPDisable N idx s = Inr s' \<and>
     s' = s\<lparr>outputTP := (outputTP s)(out := outputTP s out @ [turn_off])\<rparr> \<and>
     numTPFrequency s' = numTPFrequency s \<and> numTPDutyCycle s' = numTPDutyCycle s \<and>
     (\<exists>s''. mTPEnable fdiv N idx s' = Inr s'' \<and>
        outputTP s'' out = outputTP s out @
          [turn_off, turn_on, update_frequency (numTPFrequency s f),
           set_level (fdiv (numTPDutyCycle s d) 100)])"
proof -
  let ?s' = "s\<lparr>outputTP := (outputTP s)(out := outputTP s out @ [turn_off])\<rparr>"
  have d: "mTPDisable N idx s = Inr ?s'"
    using assms(1-3) by (rule mTPDisable_bound)
  have "mTPEnable fdiv N idx ?s' =
     Inr (?s'\<lparr>outputTP := (outputTP ?s')(out := outputTP ?s' out @
            [turn_on, update_frequency (numTPFrequency ?s' f),
             set_level (fdiv (numTPDutyCycle ?s' d) 100)])\<rparr>)"
    by (rule mTPEnable_bound) (simp_all add: assms)
  then have "\<exists>s''. mTPEnable fdiv N idx ?s' = Inr s'' \<and>
        outputTP s'' out = outputTP s out @
          [turn_off, turn_on, update_frequency (numTPFrequency s f),
           set_level (fdiv (numTPDutyCycle s d) 100)]"
    by simp
  with d show ?thesis by simp
qed

text \<open>
  At test point 3 of the second example system (500 Hz, duty cycle 80): after \<open>disable\<close>
  the stored values read back as 500 and 80, and the following \<open>enable\<close> passes 500 and
  the binary32 quotient \<open>13421773 / 2^24\<close>.
\<close>

theorem mTPDisable_only_turns_output_off_witness:
  "(0::int) \<le> 3 \<and> (3::int) < 8 \<and>
   OutputArray (inst (mGet 8 example_boot_80)) (nat 3) = Some 3 \<and>
   FrequencyArray (inst (mGet 8 example_boot_80)) (nat 3) = Some 3 \<and>
   DutyCycleArray (inst (mGet 8 example_boot_80)) (nat 3) = Some 3 \<and>
   (\<exists>s'. mTPDisable 8 3 (mGet 8 example_boot_80) = Inr s' \<and>
      outputTP s' 3 = [turn_off] \<and> outputTP s' 2 = [] \<and>
      mGetFrequency 8 3 s' = Inr 500 \<and> mGetDutyCycle 8 3 s' = Inr 80 \<and>
      (\<exists>s''. mTPEnable example_div 8 3 s' = Inr s'' \<and>
         outputTP s'' 3 =
           [turn_off, turn_on, update_frequency 500, set_level (13421773 / 2 ^ 24)]))"
proof -
  let ?s = "mGet 8 example_boot_80"
  have p: "OutputArray (inst ?s) (nat 3) = Some 3"
    "FrequencyArray (inst ?s) (nat 3) = Some 3"
    "DutyCycleArray (inst ?s) (nat 3) = Some 3"
    by (simp_all add: example_80_pointers)
  from mTPDisable_only_turns_output_off [where N = 8 and fdiv = example_div, OF _ _ p]
  obtain s' where
    s': "mTPDisable 8 3 ?s = Inr s'"
      "s' = ?s\<lparr>outputTP := (outputTP ?s)(3 := outputTP ?s 3 @ [turn_off])\<rparr>"
      "\<exists>s''. mTPEnable example_div 8 3 s' = Inr s'' \<and>
         outputTP s'' 3 = outputTP ?s 3 @
           [turn_off, turn_on, update_frequency (numTPFrequency ?s 3),
            set_level (example_div (numTPDutyCycle ?s 3) 100)]"
    by auto
  have "outputTP s' 3 = [turn_off]" "outputTP s' 2 = []"
    "mGetFrequency 8 3 s' = Inr 500" "mGetDutyCycle 8 3 s' = Inr 80"
    using p by (simp_all add: s'(2) mGetFrequency_def mGetDutyCycle_def deref_def
        mGet_components example_boot_80_fields)
  moreover from s'(3) have "\<exists>s''. mTPEnable example_div 8 3 s' = Inr s'' \<and>
         outputTP s'' 3 =
           [turn_off, turn_on, update_frequency 500, set_level (13421773 / 2 ^ 24)]"
    by (simp add: mGet_components example_boot_80_fields example_div_values)
  ultimately show ?thesis using s'(1) p by simp
qed

text \<open>
  C8: initialisation is idempotent.  Running \<open>setup\<close> a second time gives the instance that
  the first run gave, and so does a second \<open>mGet\<close>; no sequence of operations after the
  first \<open>mGet\<close> changes the instance; and in a freshly initialised instance every bound
  slot points to the object of its own number, so that no object is bound twice.
\<close>

theorem setup_idempotent:
  "phb_test_setup N (phb_test_setup N r) = phb_test_setup N r \<and>
   mGet N (mGet N s) = mGet N s \<and>
   (run fdiv N es (mGet N s) = Inr s' \<longrightarrow> inst s' = inst (mGet N s)) \<and>
   (OutputArray (phb_test_setup N phb_test_new) i = Some k \<longrightarrow> k = i) \<and>
   (SwitchArray (phb_test_setup N phb_test_new) i = Some k \<longrightarrow> k = i) \<and>
   (DutyCycleArray (phb_test_setup N phb_test_new) i = Some k \<longrightarrow> k = i) \<and>
   (FrequencyArray (phb_test_setup N phb_test_new) i = Some k \<longrightarrow> k = i) \<and>
   (InputArray (phb_test_setup N phb_test_new) i = Some k \<longrightarrow> k = i)"
proof -
  have "phb_test_setup N (phb_test_setup N r) = phb_test_setup N r"
    by (rule setup_when_Initialized) (rule setup_Initialized)
  moreover have "mGet N (mGet N s) = mGet N s"
    by (rule mGet_when_Initialized) (rule mGet_Initialized)
  moreover have "run fdiv N es (mGet N s) = Inr s' \<longrightarrow> inst s' = inst (mGet N s)"
    using run_inst [OF mGet_Initialized] by blast
  moreover have "OutputArray (phb_test_setup N phb_test_new) i = Some k \<longrightarrow> k = i"
    "SwitchArray (phb_test_setup N phb_test_new) i = Some k \<longrightarrow> k = i"
    "DutyCycleArray (phb_test_setup N phb_test_new) i = Some k \<longrightarrow> k = i"
    "FrequencyArray (phb_test_setup N phb_test_new) i = Some k \<longrightarrow> k = i"
    "InputArray (phb_test_setup N phb_test_new) i = Some k \<longrightarrow> k = i"
    by (simp_all add: setup_new_arrays)
  ultimately show ?thesis by blast
qed

theorem setup_idempotent_witness:
  "run example_div 8 [TPEnable 3, SetFrequency 3 500, Get, TPDisable 3] (mGet 8 (example_boot True)) =
     Inr ((mGet 8 (example_boot True))
       \<lparr>outputTP := (\<lambda>_. [])(3 := [turn_on, update_frequency 1000, set_level (1 / 2),
                                 update_frequency 500, turn_off]),
        numTPFrequency := (\<lambda>_. 1000)(3 := 500)\<rparr>) \<and>
   OutputArray (phb_test_setup 8 phb_test_new) 3 = Some 3 \<and>
   SwitchArray (phb_test_setup 8 phb_test_new) 3 = Some 3 \<and>
   DutyCycleArray (phb_test_setup 8 phb_test_new) 3 = Some 3 \<and>
   FrequencyArray (phb_test_setup 8 phb_test_new) 3 = Some 3 \<and>
   InputArray (phb_test_setup 8 phb_test_new) 3 = Some 3 \<and>
   inst ((mGet 8 (example_boot True))
       \<lparr>outputTP := (\<lambda>_. [])(3 := [turn_on, update_frequency 1000, set_level (1 / 2),
                                 update_frequency 500, turn_off]),
        numTPFrequency := (\<lambda>_. 1000)(3 := 500)\<rparr>) = inst (mGet 8 (example_boot True)) \<and>
   mGet 8 (mGet 8 (example_boot True)) = mGet 8 (example_boot True)"
proof -
  let ?s = "mGet 8 (example_boot True)"
  let ?t = "?s\<lparr>outputTP := (\<lambda>_. [])(3 := [turn_on, update_frequency 1000, set_level (1 / 2),
                                 update_frequency 500, turn_off]),
        numTPFrequency := (\<lambda>_. 1000)(3 := 500)\<rparr>"
  have r: "run example_div 8 [TPEnable 3, SetFrequency 3 500, Get, TPDisable 3] ?s = Inr ?t"
    by (simp add: mTPEnable_def mSetFrequency_def mTPDisable_def deref_def call_def
        publish_state_def Let_def example_pointers mGet_components example_boot_fields
        mGet_when_Initialized mGet_Initialized fun_upd_twist example_div_values)
  have a: "OutputArray (phb_test_setup 8 phb_test_new) 3 = Some 3"
    "SwitchArray (phb_test_setup 8 phb_test_new) 3 = Some 3"
    "DutyCycleArray (phb_test_setup 8 phb_test_new) 3 = Some 3"
    "FrequencyArray (phb_test_setup 8 phb_test_new) 3 = Some 3"
    "InputArray (phb_test_setup 8 phb_test_new) 3 = Some 3"
    by (simp_all add: setup_new_arrays)
  from setup_idempotent [where N = 8 and r = phb_test_new and s = "example_boot True"
      and fdiv = example_div and es = "[TPEnable 3, SetFrequency 3 500, Get, TPDisable 3]"
      and s' = ?t and i = 3 and k = 3] r a
  show ?thesis by simp
qed

text \<open>
  C9: \<open>mGetBootReason\<close> is a total function of the reset code.  Its result is always one of
  eleven distinct strings; the ten listed causes map, in order, to the first ten, and
  every other code maps to \<open>Unknown\<close>.
\<close>

theorem mGetBootReason_total_eleven_strings:
  "mGetBootReason r \<in> set reason_strings \<and>
   distinct reason_strings \<and> length reason_strings = 11 \<and>
   map mGetBootReason listed_causes = butlast reason_strings \<and>
   distinct listed_causes \<and> length listed_causes = 10 \<and>
   (r \<notin> set listed_causes \<longrightarrow> mGetBootReason r = ''Unknown'')"
proof -
  have "mGetBootReason r \<in> set reason_strings"
    by (cases r) (simp_all add: reason_strings_def)
  moreover have "distinct reason_strings" "length reason_strings = 11"
    by (simp_all add: reason_strings_def)
  moreover have "map mGetBootReason listed_causes = butlast reason_strings"
    by (simp add: listed_causes_def reason_strings_def)
  moreover have "distinct listed_causes" "length listed_causes = 10"
    by (simp_all add: listed_causes_def)
  moreover have "r \<notin> set listed_causes \<longrightarrow> mGetBootReason r = ''Unknown''"
    by (cases r) (simp_all add: listed_causes_def)
  ultimately show ?thesis by blast
qed

theorem mGetBootReason_total_eleven_strings_witness:
  "ESP_RST_other 11 \<notin> set listed_causes \<and> mGetBootReason (ESP_RST_other 11) = ''Unknown'' \<and>
   ESP_RST_UNKNOWN \<notin> set listed_causes \<and> mGetBootReason ESP_RST_UNKNOWN = ''Unknown'' \<and>
   ESP_RST_BROWNOUT \<in> set listed_causes \<and> mGetBootReason ESP_RST_BROWNOUT = ''Brownout Reset''"
  using mGetBootReason_total_eleven_strings [of "ESP_RST_other 11"]
    mGetBootReason_total_eleven_strings [of ESP_RST_UNKNOWN]
  by (simp add: listed_causes_def)

text \<open>
  C10: when \<open>N \<le> 8\<close>, after the first \<open>mGet\<close> on the instance as constructed all five
  pointers of every slot below \<open>N\<close> are set and the flag is set; every sequence of public
  operations and outside changes of the components, run from there, returns without a
  null-pointer read and leaves the instance, with its bindings and its flag, as it was.
\<close>

theorem bindings_invariant:
  assumes "N \<le> 8" and "inst s = phb_test_new"
  shows "Initialized (inst (mGet N s)) \<and> all_bound N (inst (mGet N s)) \<and>
     (\<exists>s'. run fdiv N es (mGet N s) = Inr s' \<and> inst s' = inst (mGet N s) \<and>
           Initialized (inst s') \<and> all_bound N (inst s'))"
proof -
  have i: "Initialized (inst (mGet N s))" by (rule mGet_Initialized)
  have b: "all_bound N (inst (mGet N s))"
    by (simp only: mGet_inst_new [OF assms(2)] all_bound_setup_new [OF assms(1)])
  from run_succeeds [OF i b] obtain s' where r: "run fdiv N es (mGet N s) = Inr s'" by blast
  from run_inst [OF i r] have "inst s' = inst (mGet N s)" .
  with i b r show ?thesis by simp
qed

theorem bindings_invariant_witness:
  "(8::int) \<le> 8 \<and> inst (example_boot False) = phb_test_new \<and>
   (\<exists>s'. run example_div 8 [TPEnable 3, External (\<lambda>_. []) (\<lambda>_. True) (\<lambda>_. 80) (\<lambda>_. 500) (\<lambda>_. True),
                 SetDutyCycle 3 25, TPDisable 8, Get, IsEnabled 7]
             (mGet 8 (example_boot False)) = Inr s' \<and>
         inst s' = inst (mGet 8 (example_boot False)) \<and> Initialized (inst s') \<and>
         InputArray (inst s') 7 = Some 7 \<and> OutputArray (inst s') 7 = Some 7 \<and>
         DutyCycleArray (inst s') 7 = Some 7 \<and> FrequencyArray (inst s') 7 = Some 7 \<and>
         SwitchArray (inst s') 7 = Some 7)"
proof -
  have e: "inst (example_boot False) = phb_test_new" by (rule example_boot_fields)
  have q: "InputArray (inst (mGet 8 (example_boot False))) 7 = Some 7"
    "OutputArray (inst (mGet 8 (example_boot False))) 7 = Some 7"
    "DutyCycleArray (inst (mGet 8 (example_boot False))) 7 = Some 7"
    "FrequencyArray (inst (mGet 8 (example_boot False))) 7 = Some 7"
    "SwitchArray (inst (mGet 8 (example_boot False))) 7 = Some 7"
    by (simp_all add: example_pointers)
  from bindings_invariant [where N = 8 and fdiv = example_div, OF _ e, of
      "[TPEnable 3, External (\<lambda>_. []) (\<lambda>_. True) (\<lambda>_. 80) (\<lambda>_. 500) (\<lambda>_. True),
        SetDutyCycle 3 25, TPDisable 8, Get, IsEnabled 7]"] e q
  show ?thesis by auto
qed

end
